theory Spec2Isabelle
  imports Complex_Main "HOL-Library.Word" "HOL-Library.Multiset"
begin

section \<open>Report intake: the upload dialog\<close>

text \<open>
  The upload dialog (the component \<^verbatim>\<open>UploadModal\<close>) keeps nine React state cells and
  drives them from event handlers. Each handler is embedded as a function on a record
  of the cells. A handler that awaits is split at its \<^verbatim>\<open>await\<close>s: one function per
  stretch of code that runs without interruption, and a composition that runs them
  back to back with the outcome of each awaited call as an argument.

  Strings are lists of 8-bit characters; case mapping is the ASCII one.
\<close>

subsection \<open>Strings\<close>

text \<open>
  An upper-case ASCII letter has a code from 65 to 90; the lower-case letter is the same
  code with bit 5 set, which is the code plus 32.
\<close>

definition toLowerCase_char :: "char \<Rightarrow> char" where
  "toLowerCase_char c =
     (if 65 \<le> (of_char c :: nat) \<and> (of_char c :: nat) \<le> 90
      then (case c of Char b0 b1 b2 b3 b4 b5 b6 b7 \<Rightarrow> Char b0 b1 b2 b3 b4 True b6 b7)
      else c)"

definition toLowerCase :: "string \<Rightarrow> string" where
  "toLowerCase s = map toLowerCase_char s"

definition endsWith :: "string \<Rightarrow> string \<Rightarrow> bool" where
  "endsWith s suf = (length suf \<le> length s \<and> drop (length s - length suf) s = suf)"

definition startsWith :: "string \<Rightarrow> string \<Rightarrow> bool" where
  "startsWith s pre = (take (length pre) s = pre)"

text \<open>
  \<^verbatim>\<open>name.replace(/\.(heic|heif)$/i, '.jpg')\<close>: the pattern is anchored at the end of
  the name and matches a dot followed by \<^verbatim>\<open>heic\<close> or \<^verbatim>\<open>heif\<close> in any letter case, so at
  most the last five characters are replaced.
\<close>

definition replace_heic_suffix :: "string \<Rightarrow> string" where
  "replace_heic_suffix n =
     (if endsWith (toLowerCase n) ''.heic'' \<or> endsWith (toLowerCase n) ''.heif''
      then take (length n - 5) n @ ''.jpg'' else n)"

subsection \<open>Files and the format converter\<close>

text \<open>
  A \<^verbatim>\<open>Blob\<close> has a size, a content type and its bytes; a \<^verbatim>\<open>File\<close> is a \<^verbatim>\<open>Blob\<close> with a
  name (\<^verbatim>\<open>file.size\<close>, \<^verbatim>\<open>file.type\<close>, \<^verbatim>\<open>file.name\<close> in the source).
\<close>

record Blob =
  blob_size :: nat
  blob_type :: string
  blob_data :: string

record File = Blob +
  file_name :: string

text \<open>
  \<^verbatim>\<open>new File([part], name, {type})\<close>. The part is a blob, or \<^verbatim>\<open>undefined\<close> (written
  \<open>None\<close>), which the constructor turns into the nine characters of its name.
\<close>

definition new_File :: "Blob option \<Rightarrow> string \<Rightarrow> string \<Rightarrow> File" where
  "new_File part n t =
     (case part of
        Some b \<Rightarrow> \<lparr>blob_size = blob_size b, blob_type = t, blob_data = blob_data b,
                   file_name = n\<rparr>
      | None \<Rightarrow> \<lparr>blob_size = 9, blob_type = t, blob_data = ''undefined'', file_name = n\<rparr>)"

definition isHeicFile :: "File \<Rightarrow> bool" where
  "isHeicFile f =
     (let name = toLowerCase (file_name f); type = toLowerCase (blob_type f) in
        endsWith name ''.heic'' \<or> endsWith name ''.heif'' \<or>
        type = ''image/heic'' \<or> type = ''image/heif'')"

text \<open>
  What the external converter \<^verbatim>\<open>heic2any\<close> hands back: one blob, an array of blobs, or an
  exception (which also stands for a failed dynamic import of the library).
\<close>

datatype Heic2anyResult = OneBlob Blob | BlobArray "Blob list" | Heic2anyThrows

text \<open>
  \<^verbatim>\<open>convertHeicToJpeg\<close> returns \<open>None\<close> when the converter throws. Of an array it takes
  element 0, which is \<^verbatim>\<open>undefined\<close> for the empty array.
\<close>

definition convertHeicToJpeg :: "Heic2anyResult \<Rightarrow> File \<Rightarrow> (Blob option \<times> File) option" where
  "convertHeicToJpeg converted f =
     (case converted of
        Heic2anyThrows \<Rightarrow> None
      | OneBlob b \<Rightarrow>
          Some (Some b, new_File (Some b) (replace_heic_suffix (file_name f)) ''image/jpeg'')
      | BlobArray bs \<Rightarrow>
          (let blob = (case bs of [] \<Rightarrow> None | b # _ \<Rightarrow> Some b) in
             Some (blob, new_File blob (replace_heic_suffix (file_name f)) ''image/jpeg'')))"

subsection \<open>The dialog's state\<close>

datatype UploadStep = Select | Converting | Location | Analyzing | Review

datatype GeoMethod = Auto | Manual

text \<open>
  A JavaScript number that the code only stores, copies and sends (a latitude, a
  longitude, a confidence, the file size in a request) is embedded as a real. The size
  of a file, which the dialog compares with the limit, is a natural number.
\<close>

record Coordinates =
  lat :: real
  lng :: real

record AnalyzeResponse =
  category :: string
  severity :: string
  summary :: string
  confidence :: real

text \<open>
  The nine state cells, and with them the browser's table of object URLs that
  \<^verbatim>\<open>URL.createObjectURL\<close> has handed out and \<^verbatim>\<open>URL.revokeObjectURL\<close> has not yet released.
\<close>

record Modal =
  step :: UploadStep
  "file" :: "File option"
  mediaUrl :: "string option"
  coordinates :: "Coordinates option"
  geoMethod :: GeoMethod
  geoError :: "string option"
  analysis :: "AnalyzeResponse option"
  isAnalyzing :: bool
  error :: "string option"
  objectURLs :: "string set"

definition initial :: Modal where
  "initial = \<lparr>step = Select, file = None, mediaUrl = None, coordinates = None,
     geoMethod = Auto, geoError = None, analysis = None, isAnalyzing = False,
     error = None, objectURLs = {}\<rparr>"

text \<open>
  \<^verbatim>\<open>if (mediaUrl) URL.revokeObjectURL(mediaUrl)\<close>: \<^verbatim>\<open>null\<close> and the empty string are
  falsy, every other string is released.
\<close>

definition revoke_mediaUrl :: "Modal \<Rightarrow> string set" where
  "revoke_mediaUrl m =
     (case mediaUrl m of
        None \<Rightarrow> objectURLs m
      | Some u \<Rightarrow> if u = [] then objectURLs m else objectURLs m - {u})"

definition resetState :: "Modal \<Rightarrow> Modal" where
  "resetState m = m\<lparr>step := Select, file := None, objectURLs := revoke_mediaUrl m,
     mediaUrl := None, coordinates := None, geoMethod := Auto, geoError := None,
     analysis := None, isAnalyzing := False, error := None\<rparr>"

definition handleClose :: "Modal \<Rightarrow> Modal" where
  "handleClose m = resetState m"

subsection \<open>Selecting a file\<close>

definition isImage :: "File \<Rightarrow> bool" where
  "isImage f = (startsWith (blob_type f) ''image/'' \<or> isHeicFile f)"

definition isVideo :: "File \<Rightarrow> bool" where
  "isVideo f = startsWith (blob_type f) ''video/''"

definition max_file_size :: nat where
  "max_file_size = 20 * 1024 * 1024"

text \<open>The outcome of \<^verbatim>\<open>getCurrentPosition()\<close>: a position, or a rejection.\<close>

datatype GeoResult = Position Coordinates | GeoRejected

text \<open>Where a run of \<^verbatim>\<open>handleFileSelect\<close> is suspended, if it is.\<close>

datatype FileSelectPending = AwaitConversion File | AwaitPosition

text \<open>
  From the change event to the first \<^verbatim>\<open>await\<close>. \<open>url\<close> is the string
  \<^verbatim>\<open>URL.createObjectURL\<close> returns if it is called in this stretch.
\<close>

definition handleFileSelect_begin ::
  "string \<Rightarrow> File option \<Rightarrow> Modal \<Rightarrow> Modal \<times> FileSelectPending option" where
  "handleFileSelect_begin url selected m =
     (case selected of
        None \<Rightarrow> (m, None)
      | Some selectedFile \<Rightarrow>
          if \<not> isImage selectedFile \<and> \<not> isVideo selectedFile then
            (m\<lparr>error := Some ''Please select an image or video file''\<rparr>, None)
          else if blob_size selectedFile > max_file_size then
            (m\<lparr>error := Some ''File must be under 20MB''\<rparr>, None)
          else if isHeicFile selectedFile then
            (m\<lparr>error := None, step := Converting\<rparr>, Some (AwaitConversion selectedFile))
          else
            (m\<lparr>error := None, objectURLs := insert url (objectURLs m),
               file := Some selectedFile, mediaUrl := Some url, step := Location\<rparr>,
             Some AwaitPosition))"

text \<open>
  After the conversion has settled. \<^verbatim>\<open>URL.createObjectURL(blob)\<close> is inside the
  \<^verbatim>\<open>try\<close>, and throws a TypeError for \<^verbatim>\<open>undefined\<close>.
\<close>

definition handleFileSelect_converted ::
  "string \<Rightarrow> Heic2anyResult \<Rightarrow> File \<Rightarrow> Modal \<Rightarrow> Modal \<times> FileSelectPending option" where
  "handleFileSelect_converted url converted selectedFile m =
     (case convertHeicToJpeg converted selectedFile of
        Some (Some blob, convertedFile) \<Rightarrow>
          (m\<lparr>objectURLs := insert url (objectURLs m), file := Some convertedFile,
             mediaUrl := Some url, step := Location\<rparr>, Some AwaitPosition)
      | _ \<Rightarrow>
          (m\<lparr>error := Some ''Failed to convert HEIC image. Please try a different format.'',
             step := Select\<rparr>, None))"

text \<open>After the position request has settled.\<close>

definition handleFileSelect_located :: "GeoResult \<Rightarrow> Modal \<Rightarrow> Modal" where
  "handleFileSelect_located r m =
     (case r of
        Position pos \<Rightarrow> m\<lparr>coordinates := Some pos, geoMethod := Auto, geoError := None\<rparr>
      | GeoRejected \<Rightarrow>
          m\<lparr>geoError := Some ''Could not get your location. Pan the map to set location.'',
            geoMethod := Manual\<rparr>)"

text \<open>What the awaited calls of one run of \<^verbatim>\<open>handleFileSelect\<close> answer.\<close>

record SelectEnv =
  createObjectURL :: string
  heic2any :: Heic2anyResult
  getCurrentPosition :: GeoResult

text \<open>The whole handler, run with nothing else happening in between.\<close>

definition handleFileSelect :: "SelectEnv \<Rightarrow> File option \<Rightarrow> Modal \<Rightarrow> Modal" where
  "handleFileSelect env selected m =
     (case handleFileSelect_begin (createObjectURL env) selected m of
        (m1, None) \<Rightarrow> m1
      | (m1, Some AwaitPosition) \<Rightarrow> handleFileSelect_located (getCurrentPosition env) m1
      | (m1, Some (AwaitConversion selectedFile)) \<Rightarrow>
          (case handleFileSelect_converted (createObjectURL env) (heic2any env) selectedFile m1 of
             (m2, Some _) \<Rightarrow> handleFileSelect_located (getCurrentPosition env) m2
           | (m2, None) \<Rightarrow> m2))"

subsection \<open>Positioning, analysis, going back\<close>

text \<open>
  \<^verbatim>\<open>handleCenterChange\<close> reads \<^verbatim>\<open>geoMethod\<close> and \<^verbatim>\<open>geoError\<close> as the component last
  rendered them, which is the current state when the map reports a new centre.
\<close>

definition handleCenterChange :: "Coordinates \<Rightarrow> Modal \<Rightarrow> Modal" where
  "handleCenterChange coords m =
     (if geoMethod m = Auto \<and> geoError m = None
      then m\<lparr>coordinates := Some coords, geoError := None\<rparr>
      else m\<lparr>coordinates := Some coords, geoMethod := Manual, geoError := None\<rparr>)"

text \<open>
  The answer to \<^verbatim>\<open>fetch('/api/analyze')\<close>: the request fails, or a response arrives
  with its \<^verbatim>\<open>ok\<close> flag and a body. For \<^verbatim>\<open>response.json()\<close> the body is not JSON (the
  call throws), is the JSON value \<^verbatim>\<open>null\<close>, or is a result.
\<close>

datatype ResponseBody = NotJson | JsonNull | Parsed AnalyzeResponse

datatype FetchResult = NetworkError | Response bool ResponseBody

definition handleAnalyze_begin :: "Modal \<Rightarrow> Modal \<times> bool" where
  "handleAnalyze_begin m =
     (if file m = None \<or> coordinates m = None then (m, False)
      else (m\<lparr>step := Analyzing, isAnalyzing := True, error := None\<rparr>, True))"

text \<open>
  After the call has settled. For a 2xx response whose body is \<^verbatim>\<open>null\<close> the handler has
  run \<^verbatim>\<open>setAnalysis(null)\<close> and \<^verbatim>\<open>setStep('review')\<close> when reading \<^verbatim>\<open>result.category\<close>
  throws, so the \<^verbatim>\<open>catch\<close> block finds the stored analysis cleared.
\<close>

definition handleAnalyze_settled :: "FetchResult \<Rightarrow> Modal \<Rightarrow> Modal" where
  "handleAnalyze_settled r m =
     (case r of
        Response True (Parsed result) \<Rightarrow>
          m\<lparr>analysis := Some result, step := Review, isAnalyzing := False\<rparr>
      | Response True JsonNull \<Rightarrow>
          m\<lparr>analysis := None, error := Some ''Failed to analyze media. Please try again.'',
            step := Location, isAnalyzing := False\<rparr>
      | _ \<Rightarrow>
          m\<lparr>error := Some ''Failed to analyze media. Please try again.'', step := Location,
            isAnalyzing := False\<rparr>)"

definition handleAnalyze :: "FetchResult \<Rightarrow> Modal \<Rightarrow> Modal" where
  "handleAnalyze r m =
     (case handleAnalyze_begin m of
        (m1, True) \<Rightarrow> handleAnalyze_settled r m1
      | (m1, False) \<Rightarrow> m1)"

text \<open>A failed analysis call: no response at all, or a response that is not 2xx.\<close>

fun analysis_failed :: "FetchResult \<Rightarrow> bool" where
  "analysis_failed NetworkError = True"
| "analysis_failed (Response ok _) = (\<not> ok)"

definition handleBackFromLocation :: "Modal \<Rightarrow> Modal" where
  "handleBackFromLocation m = m\<lparr>step := Select, file := None,
     objectURLs := revoke_mediaUrl m, mediaUrl := None, coordinates := None,
     geoError := None\<rparr>"

section \<open>Report store: the \<^verbatim>\<open>/api/reports\<close> route\<close>

text \<open>
  The route handlers talk to a MongoDB database through its driver. The database is
  embedded as a record of its two collections, each a list in insertion order. What the
  driver and the engine do is written out where a handler relies on it: the 24-digit
  text of an \<^verbatim>\<open>ObjectId\<close>, the unique index on \<^verbatim>\<open>_id\<close>, \<^verbatim>\<open>findOne\<close> returning the first
  match, and \<^verbatim>\<open>sort\<close>. The engine's test whether a polygon meets a point
  (\<^verbatim>\<open>$geoIntersects\<close>) is an argument \<open>geoIntersects\<close> of the handlers.
  A \<^verbatim>\<open>Date\<close> is its number of milliseconds since the epoch.
\<close>

subsection \<open>Object identifiers\<close>

type_synonym ObjectId = "96 word"

definition hex_digit :: "nat \<Rightarrow> char" where
  "hex_digit d = ''0123456789abcdef'' ! d"

fun hex :: "nat \<Rightarrow> nat \<Rightarrow> string" where
  "hex 0 x = []"
| "hex (Suc n) x = hex n (x div 16) @ [hex_digit (x mod 16)]"

text \<open>\<^verbatim>\<open>ObjectId.toString()\<close>: the twelve bytes as 24 lower-case hexadecimal digits.\<close>

definition toString :: "ObjectId \<Rightarrow> string" where
  "toString i = hex 24 (unat i)"

subsection \<open>Documents\<close>

record Media =
  media_type :: string
  media_url :: string
  media_fileName :: string
  media_fileSize :: real

record Ai =
  ai_category :: string
  ai_severity :: string
  ai_summary :: string
  ai_confidence :: real

record Routing =
  assignedAreaId :: string
  matchedBy :: string
  matchedAt :: int

text \<open>
  A report document. \<open>oid\<close> is the field \<^verbatim>\<open>_id\<close>, absent until the document is inserted;
  \<open>location\<close> is the pair \<^verbatim>\<open>[lng, lat]\<close> of the GeoJSON point.
\<close>

record DbReport =
  oid :: "ObjectId option"
  createdAt :: int
  updatedAt :: int
  location :: "real \<times> real"
  media :: Media
  ai :: Ai
  report_geoMethod :: string
  status :: string
  routing :: "Routing option"

type_synonym Polygon = "(real \<times> real) list list"

record Area =
  area_id :: ObjectId
  polygon :: Polygon
  isActive :: bool

record Db =
  reports :: "DbReport list"
  areas :: "Area list"

subsection \<open>Requests and responses\<close>

text \<open>
  A JSON value of a response. \<open>JIsoDate t\<close> is the string \<^verbatim>\<open>toISOString()\<close> gives for
  the instant \<open>t\<close>.
\<close>

datatype Json =
  JString string
| JNumber real
| JIsoDate int
| JObject "(string \<times> Json) list"
| JArray "Json list"

record HttpResponse =
  http_status :: nat
  http_body :: Json

definition error_response :: "string \<Rightarrow> HttpResponse" where
  "error_response msg = \<lparr>http_status = 500, http_body = JObject [(''error'', JString msg)]\<rparr>"

text \<open>
  The body of \<^verbatim>\<open>POST /api/reports\<close>. \<^verbatim>\<open>coordinates\<close> and \<^verbatim>\<open>analysis\<close> are the two
  fields the handler reads properties of, so a request without one of them makes it
  throw; \<open>None\<close> stands for the field missing. The other fields are those the dialog
  sends with every submission. The handler does not check them: a request that leaves
  one out is answered without that key, which this record does not express.
\<close>

record ReportBody =
  body_coordinates :: "Coordinates option"
  body_mediaUrl :: string
  body_mediaType :: string
  body_fileName :: string
  body_fileSize :: real
  body_analysis :: "AnalyzeResponse option"
  body_geoMethod :: string

text \<open>
  What one run of a handler gets from outside: whether \<^verbatim>\<open>getDatabase()\<close> resolves, the
  clock reading of \<^verbatim>\<open>new Date()\<close>, and the \<^verbatim>\<open>_id\<close> the driver generates for the document
  it inserts.
\<close>

record ServerEnv =
  database_up :: bool
  now :: int
  generated_id :: ObjectId

subsection \<open>Creating a report\<close>

text \<open>\<^verbatim>\<open>findOne\<close> on the areas: the first area whose polygon meets the point and that is active.\<close>

definition findOne_area ::
  "(Polygon \<Rightarrow> real \<times> real \<Rightarrow> bool) \<Rightarrow> real \<times> real \<Rightarrow> Area list \<Rightarrow> Area option" where
  "findOne_area geoIntersects point as =
     find (\<lambda>a. geoIntersects (polygon a) point \<and> isActive a) as"

text \<open>
  \<^verbatim>\<open>insertOne\<close>: the document gets the generated \<^verbatim>\<open>_id\<close> and is appended, unless a
  document with that \<^verbatim>\<open>_id\<close> is there already, which is a duplicate-key error (\<open>None\<close>).
\<close>

definition insertOne :: "ObjectId \<Rightarrow> DbReport \<Rightarrow> DbReport list \<Rightarrow> DbReport list option" where
  "insertOne i r rs =
     (if Some i \<in> set (map oid rs) then None else Some (rs @ [r\<lparr>oid := Some i\<rparr>]))"

text \<open>The document \<^verbatim>\<open>report\<close> the handler builds from the request, before routing.\<close>

definition new_report ::
  "ServerEnv \<Rightarrow> ReportBody \<Rightarrow> Coordinates \<Rightarrow> AnalyzeResponse \<Rightarrow> DbReport" where
  "new_report env body coords result =
     \<lparr>oid = None, createdAt = now env, updatedAt = now env,
      location = (lng coords, lat coords),
      media = \<lparr>media_type = body_mediaType body, media_url = body_mediaUrl body,
                media_fileName = body_fileName body, media_fileSize = body_fileSize body\<rparr>,
      ai = \<lparr>ai_category = category result, ai_severity = severity result,
             ai_summary = summary result, ai_confidence = confidence result\<rparr>,
      report_geoMethod = body_geoMethod body, status = ''open'', routing = None\<rparr>"

text \<open>
  The routing lookup and \<^verbatim>\<open>if (matchingArea) { report.routing = ... }\<close>.
\<close>

definition assign_routing ::
  "(Polygon \<Rightarrow> real \<times> real \<Rightarrow> bool) \<Rightarrow> ServerEnv \<Rightarrow> Db \<Rightarrow> DbReport \<Rightarrow> DbReport" where
  "assign_routing geoIntersects env db report =
     (case findOne_area geoIntersects (location report) (areas db) of
        Some matchingArea \<Rightarrow>
          report\<lparr>routing := Some \<lparr>assignedAreaId = toString (area_id matchingArea),
                                   matchedBy = ''geoWithin'', matchedAt = now env\<rparr>\<rparr>
      | None \<Rightarrow> report)"

text \<open>
  \<^verbatim>\<open>POST\<close> up to and including the routing lookup: the document to insert and the
  coordinates of the request, or \<open>None\<close> when something threw (the body is not JSON,
  the database is unreachable, \<^verbatim>\<open>coordinates\<close> or \<^verbatim>\<open>analysis\<close> is missing).
\<close>

definition POST_build ::
  "(Polygon \<Rightarrow> real \<times> real \<Rightarrow> bool) \<Rightarrow> ServerEnv \<Rightarrow> ReportBody option \<Rightarrow> Db \<Rightarrow>
     (DbReport \<times> Coordinates) option" where
  "POST_build geoIntersects env request db =
     (case request of
        None \<Rightarrow> None
      | Some body \<Rightarrow>
          if \<not> database_up env then None
          else
            (case (body_coordinates body, body_analysis body) of
               (Some coords, Some result) \<Rightarrow>
                 Some (assign_routing geoIntersects env db (new_report env body coords result),
                       coords)
             | _ \<Rightarrow> None))"

text \<open>The object \<^verbatim>\<open>createdReport\<close> the handler answers with.\<close>

definition createdReport :: "ObjectId \<Rightarrow> DbReport \<Rightarrow> Coordinates \<Rightarrow> Json" where
  "createdReport insertedId report coords =
     JObject [
       (''id'', JString (toString insertedId)),
       (''createdAt'', JIsoDate (createdAt report)),
       (''coordinates'', JObject [(''lat'', JNumber (lat coords)), (''lng'', JNumber (lng coords))]),
       (''mediaUrl'', JString (media_url (media report))),
       (''mediaType'', JString (media_type (media report))),
       (''fileName'', JString (media_fileName (media report))),
       (''fileSize'', JNumber (media_fileSize (media report))),
       (''analysis'', JObject [
          (''category'', JString (ai_category (ai report))),
          (''severity'', JString (ai_severity (ai report))),
          (''summary'', JString (ai_summary (ai report))),
          (''confidence'', JNumber (ai_confidence (ai report)))]),
       (''geoMethod'', JString (report_geoMethod report)),
       (''status'', JString (status report))]"

text \<open>\<^verbatim>\<open>POST\<close> from the insertion on.\<close>

definition POST_insert :: "ServerEnv \<Rightarrow> DbReport \<times> Coordinates \<Rightarrow> Db \<Rightarrow> HttpResponse \<times> Db" where
  "POST_insert env pending db =
     (case insertOne (generated_id env) (fst pending) (reports db) of
        None \<Rightarrow> (error_response ''Failed to create report'', db)
      | Some rs \<Rightarrow>
          (\<lparr>http_status = 201,
            http_body = createdReport (generated_id env) (fst pending) (snd pending)\<rparr>,
           db\<lparr>reports := rs\<rparr>))"

text \<open>The whole handler, run with no other request in between.\<close>

definition POST ::
  "(Polygon \<Rightarrow> real \<times> real \<Rightarrow> bool) \<Rightarrow> ServerEnv \<Rightarrow> ReportBody option \<Rightarrow> Db \<Rightarrow>
     HttpResponse \<times> Db" where
  "POST geoIntersects env request db =
     (case POST_build geoIntersects env request db of
        None \<Rightarrow> (error_response ''Failed to create report'', db)
      | Some pending \<Rightarrow> POST_insert env pending db)"

subsection \<open>Listing the reports\<close>

text \<open>
  \<^verbatim>\<open>find({}).sort({createdAt: -1}).toArray()\<close>: all documents, latest \<^verbatim>\<open>createdAt\<close>
  first. The engine promises no order among documents with the same \<^verbatim>\<open>createdAt\<close>;
  here they stay in insertion order, and no theorem below depends on that choice.
\<close>

definition find_sorted :: "DbReport list \<Rightarrow> DbReport list" where
  "find_sorted rs = sort_key (\<lambda>r. - createdAt r) rs"

text \<open>
  The callback of \<^verbatim>\<open>reports.map\<close>. \<^verbatim>\<open>report._id?.toString()\<close> is \<^verbatim>\<open>undefined\<close> for a
  document without \<^verbatim>\<open>_id\<close>, and the JSON text then has no \<^verbatim>\<open>id\<close>.
\<close>

definition transformedReport :: "DbReport \<Rightarrow> Json" where
  "transformedReport report =
     JObject (
       (case oid report of None \<Rightarrow> [] | Some i \<Rightarrow> [(''id'', JString (toString i))]) @ [
       (''createdAt'', JIsoDate (createdAt report)),
       (''coordinates'', JObject [(''lat'', JNumber (snd (location report))),
                                  (''lng'', JNumber (fst (location report)))]),
       (''mediaUrl'', JString (media_url (media report))),
       (''mediaType'', JString (media_type (media report))),
       (''fileName'', JString (media_fileName (media report))),
       (''fileSize'', JNumber (media_fileSize (media report))),
       (''analysis'', JObject [
          (''category'', JString (ai_category (ai report))),
          (''severity'', JString (ai_severity (ai report))),
          (''summary'', JString (ai_summary (ai report))),
          (''confidence'', JNumber (ai_confidence (ai report)))]),
       (''geoMethod'', JString (report_geoMethod report)),
       (''status'', JString (status report))])"

definition GET :: "ServerEnv \<Rightarrow> Db \<Rightarrow> HttpResponse" where
  "GET env db =
     (if \<not> database_up env then error_response ''Failed to fetch reports''
      else \<lparr>http_status = 200,
             http_body = JArray (map transformedReport (find_sorted (reports db)))\<rparr>)"

text \<open>Reading a response: a field of a JSON object, the elements of a JSON array.\<close>

fun field :: "string \<Rightarrow> Json \<Rightarrow> Json option" where
  "field k (JObject kvs) = map_of kvs k"
| "field k _ = None"

fun elements :: "Json \<Rightarrow> Json list" where
  "elements (JArray xs) = xs"
| "elements _ = []"

section \<open>Sample inputs\<close>

text \<open>Concrete files, positions and states on which the theorems below are instantiated.\<close>

definition png_file :: File where
  "png_file = \<lparr>blob_size = 2048, blob_type = ''image/png'', blob_data = ''png bytes'',
     file_name = ''kerb.png''\<rparr>"

definition big_video :: File where
  "big_video = \<lparr>blob_size = 25 * 1024 * 1024, blob_type = ''video/mp4'',
     blob_data = ''mp4 bytes'', file_name = ''ramp.mp4''\<rparr>"

definition here :: Coordinates where
  "here = \<lparr>lat = 37.7749, lng = -122.4194\<rparr>"

definition elsewhere :: Coordinates where
  "elsewhere = \<lparr>lat = 37.78, lng = -122.41\<rparr>"

text \<open>The dialog on the location step, holding a picture and an automatic position.\<close>

definition located :: Modal where
  "located = \<lparr>step = Location, file = Some png_file, mediaUrl = Some ''blob:1'',
     coordinates = Some here, geoMethod = Auto, geoError = None, analysis = None,
     isAnalyzing = False, error = None, objectURLs = {''blob:1''}\<rparr>"

definition select_env :: SelectEnv where
  "select_env = \<lparr>createObjectURL = ''blob:2'', heic2any = Heic2anyThrows,
     getCurrentPosition = GeoRejected\<rparr>"

definition heic_a :: File where
  "heic_a = \<lparr>blob_size = 4096, blob_type = ''image/heic'', blob_data = ''heic a'',
     file_name = ''IMG_0001.HEIC''\<rparr>"

definition heic_b :: File where
  "heic_b = \<lparr>blob_size = 4096, blob_type = ''image/heic'', blob_data = ''heic b'',
     file_name = ''IMG_0002.HEIC''\<rparr>"

text \<open>A picture in the proprietary format by its content type alone.\<close>

definition heic_by_type :: File where
  "heic_by_type = \<lparr>blob_size = 4096, blob_type = ''image/heic'', blob_data = ''heic c'',
     file_name = ''IMG_0003''\<rparr>"

definition jpeg_a :: Blob where
  "jpeg_a = \<lparr>blob_size = 3000, blob_type = ''image/jpeg'', blob_data = ''jpeg a''\<rparr>"

text \<open>
  A run of the dialog that ends on the select step with a media asset held. The reporter
  selects \<open>heic_a\<close>, whose conversion starts; closes the dialog with the header's button
  while the conversion runs, and opens it again; selects \<open>heic_b\<close>, whose conversion
  starts; the first conversion completes, so its continuation stores the converted file
  and its object URL; the second conversion throws, so its continuation puts the dialog
  back on the select step; last, the position request of the first run resolves.
\<close>

definition media_held_on_select :: Modal where
  "media_held_on_select =
     (let m1 = fst (handleFileSelect_begin ''blob:0'' (Some heic_a) initial);
          m2 = handleClose m1;
          m3 = fst (handleFileSelect_begin ''blob:0'' (Some heic_b) m2);
          m4 = fst (handleFileSelect_converted ''blob:a'' (OneBlob jpeg_a) heic_a m3);
          m5 = fst (handleFileSelect_converted ''blob:b'' Heic2anyThrows heic_b m4)
      in handleFileSelect_located (Position here) m5)"

subsection \<open>Sample data for the report store\<close>

text \<open>
  A stand-in for the engine's test whether a polygon meets a point, used only where the
  theorems are instantiated: the point lies within the bounds of the polygon's outer
  ring. For a rectangle along the axes that is containment, boundary included.
\<close>

definition in_bounding_box :: "Polygon \<Rightarrow> real \<times> real \<Rightarrow> bool" where
  "in_bounding_box poly p =
     (case poly of
        [] \<Rightarrow> False
      | ring # _ \<Rightarrow>
          (\<exists>v \<in> set ring. fst v \<le> fst p) \<and> (\<exists>v \<in> set ring. fst p \<le> fst v) \<and>
          (\<exists>v \<in> set ring. snd v \<le> snd p) \<and> (\<exists>v \<in> set ring. snd p \<le> snd v))"

text \<open>An active area around San Francisco; positions are \<^verbatim>\<open>[lng, lat]\<close>.\<close>

definition san_francisco :: Area where
  "san_francisco = \<lparr>area_id = 1,
     polygon = [[(-123, 37), (-122, 37), (-122, 38), (-123, 38), (-123, 37)]],
     isActive = True\<rparr>"

definition sample_analysis :: AnalyzeResponse where
  "sample_analysis = \<lparr>category = ''blocked_sidewalk'', severity = ''high'',
     summary = ''Kerb without ramp'', confidence = 0.9\<rparr>"

definition report_body :: "Coordinates \<Rightarrow> ReportBody" where
  "report_body c = \<lparr>body_coordinates = Some c, body_mediaUrl = ''blob:1'',
     body_mediaType = ''image'', body_fileName = ''kerb.png'', body_fileSize = 2048,
     body_analysis = Some sample_analysis, body_geoMethod = ''auto''\<rparr>"

definition null_island :: Coordinates where
  "null_island = \<lparr>lat = 0, lng = 0\<rparr>"

definition server_env :: "int \<Rightarrow> ObjectId \<Rightarrow> ServerEnv" where
  "server_env t i = \<lparr>database_up = True, now = t, generated_id = i\<rparr>"

definition city_db :: Db where
  "city_db = \<lparr>reports = [], areas = [san_francisco]\<rparr>"

definition first_env :: ServerEnv where
  "first_env = server_env 1000 7"

definition second_env :: ServerEnv where
  "second_env = server_env 2000 8"

definition later_env :: ServerEnv where
  "later_env = server_env 3000 9"

text \<open>
  Two creates that overlap in time. The first request reads the clock (1000) and does its
  routing lookup; the second request reads the clock (2000), does its lookup and inserts;
  then the first request inserts.
\<close>

definition interleaved_creates :: "HttpResponse \<times> HttpResponse \<times> Db" where
  "interleaved_creates =
     (case (POST_build in_bounding_box first_env (Some (report_body here)) city_db,
            POST_build in_bounding_box second_env (Some (report_body null_island)) city_db) of
        (Some pending1, Some pending2) \<Rightarrow>
          (let (resp2, db2) = POST_insert second_env pending2 city_db;
               (resp1, db1) = POST_insert first_env pending1 db2
           in (resp1, resp2, db1))
      | _ \<Rightarrow> (error_response [], error_response [], city_db))"

text \<open>The store after one create at \<open>here\<close>.\<close>

definition after_first :: Db where
  "after_first = snd (POST in_bounding_box first_env (Some (report_body here)) city_db)"

section \<open>Properties of the upload dialog\<close>

subsection \<open>Rejected selections\<close>

text \<open>
  Claim C8. A selected file that is neither an image nor a video (by the handler's own
  test: the content type's prefix, or the proprietary photo format), or that is larger
  than 20 MiB, is rejected: the handler sets the error message and nothing else. The
  step, the file, the media URL, the coordinates, the analysis and every other cell are
  as before, and no object URL is created.
\<close>

theorem handleFileSelect_rejects_invalid:
  assumes "(\<not> isImage f \<and> \<not> isVideo f) \<or> blob_size f > max_file_size"
  shows "handleFileSelect env (Some f) m =
           m\<lparr>error := Some (if \<not> isImage f \<and> \<not> isVideo f
                               then ''Please select an image or video file''
                               else ''File must be under 20MB'')\<rparr>"
  using assms by (auto simp: handleFileSelect_def handleFileSelect_begin_def)

text \<open>A video of 25 MiB, selected on the location step's state, changes the message only.\<close>

theorem handleFileSelect_rejects_invalid_witness:
  "blob_size big_video > max_file_size \<and>
   handleFileSelect select_env (Some big_video) located =
     located\<lparr>error := Some ''File must be under 20MB''\<rparr>"
proof -
  have video: "isVideo big_video" and big: "blob_size big_video > max_file_size"
    by (simp_all add: big_video_def isVideo_def startsWith_def max_file_size_def)
  from handleFileSelect_rejects_invalid [of big_video select_env located] video big
  show ?thesis by simp
qed

subsection \<open>Back from the location step\<close>

text \<open>
  Claim C10. From any state, \<^verbatim>\<open>handleBackFromLocation\<close> puts the dialog on the select
  step, clears the file, the media URL, the coordinates and the geolocation warning,
  and releases the object URL the media URL held (a held URL is never the empty string);
  the geo method, the stored analysis, the error message and the analysing flag stay as
  they were.
\<close>

theorem handleBackFromLocation_frame:
  "step (handleBackFromLocation m) = Select \<and>
   file (handleBackFromLocation m) = None \<and>
   mediaUrl (handleBackFromLocation m) = None \<and>
   coordinates (handleBackFromLocation m) = None \<and>
   geoError (handleBackFromLocation m) = None \<and>
   (case mediaUrl m of
      None \<Rightarrow> objectURLs (handleBackFromLocation m) = objectURLs m
    | Some u \<Rightarrow> u \<noteq> [] \<longrightarrow> objectURLs (handleBackFromLocation m) = objectURLs m - {u}) \<and>
   geoMethod (handleBackFromLocation m) = geoMethod m \<and>
   analysis (handleBackFromLocation m) = analysis m \<and>
   error (handleBackFromLocation m) = error m \<and>
   isAnalyzing (handleBackFromLocation m) = isAnalyzing m"
  by (simp add: handleBackFromLocation_def revoke_mediaUrl_def split: option.split)

theorem handleBackFromLocation_frame_witness:
  "step (handleBackFromLocation located) = Select \<and>
   file (handleBackFromLocation located) = None \<and>
   mediaUrl (handleBackFromLocation located) = None \<and>
   coordinates (handleBackFromLocation located) = None \<and>
   geoError (handleBackFromLocation located) = None \<and>
   objectURLs (handleBackFromLocation located) = {} \<and>
   geoMethod (handleBackFromLocation located) = Auto"
  using handleBackFromLocation_frame [of located]
  by (simp add: located_def)

subsection \<open>A failed analysis\<close>

text \<open>
  Claim C6. When the dialog holds a file and coordinates, so that the analysis is
  invoked, and the call fails (no response, or a response that is not 2xx), the dialog
  is back on the location step with an error message, and the file, the media URL and
  the coordinates are exactly those from before the invocation. The only cells that
  differ from before are the step, the error message and the analysing flag.
\<close>

theorem handleAnalyze_failure_keeps_draft:
  assumes "file m \<noteq> None" and "coordinates m \<noteq> None" and "analysis_failed r"
  shows "handleAnalyze r m =
           m\<lparr>step := Location, isAnalyzing := False,
             error := Some ''Failed to analyze media. Please try again.''\<rparr> \<and>
         step (handleAnalyze r m) = Location \<and>
         error (handleAnalyze r m) \<noteq> None \<and>
         file (handleAnalyze r m) = file m \<and>
         mediaUrl (handleAnalyze r m) = mediaUrl m \<and>
         coordinates (handleAnalyze r m) = coordinates m"
proof (cases r)
  case NetworkError
  with assms show ?thesis
    by (auto simp: handleAnalyze_def handleAnalyze_begin_def handleAnalyze_settled_def)
next
  case (Response ok result)
  with assms have "\<not> ok" by simp
  with Response assms show ?thesis
    by (auto simp: handleAnalyze_def handleAnalyze_begin_def handleAnalyze_settled_def)
qed

theorem handleAnalyze_failure_keeps_draft_witness:
  "analysis_failed (Response False NotJson) \<and>
   handleAnalyze (Response False NotJson) located =
     located\<lparr>error := Some ''Failed to analyze media. Please try again.''\<rparr>"
  using handleAnalyze_failure_keeps_draft [of located "Response False NotJson"]
  by (simp add: located_def)

subsection \<open>The geo method after an automatic fix\<close>

lemma handleCenterChange_auto:
  "geoMethod m = Auto \<Longrightarrow> geoError m = None \<Longrightarrow>
   geoMethod (handleCenterChange c m) = Auto \<and> geoError (handleCenterChange c m) = None"
  by (simp add: handleCenterChange_def)

lemma fold_handleCenterChange_auto:
  "geoMethod m = Auto \<Longrightarrow> geoError m = None \<Longrightarrow>
   geoMethod (fold handleCenterChange cs m) = Auto"
proof (induction cs arbitrary: m)
  case Nil
  then show ?case by simp
next
  case (Cons c cs)
  from Cons.prems have "geoMethod (handleCenterChange c m) = Auto"
    and "geoError (handleCenterChange c m) = None"
    by (simp_all add: handleCenterChange_auto)
  then show ?case by (simp add: Cons.IH)
qed

text \<open>
  Claim C2 says that after an error-free automatic fix the geo method becomes manual as
  soon as the reporter moves the map, the first, programmatic, centre change apart. The
  handler has no way to tell the first centre change from a later one: once the fix has
  set the method to automatic with no warning, the method stays automatic through every
  sequence \<open>cs\<close> of centre changes, however long.
\<close>

theorem handleCenterChange_never_manual_after_fix:
  "geoMethod (fold handleCenterChange cs (handleFileSelect_located (Position p) m)) = Auto"
  by (rule fold_handleCenterChange_auto) (simp_all add: handleFileSelect_located_def)

text \<open>The fix at \<open>here\<close>, the map's own centre change, then the reporter's move to \<open>elsewhere\<close>.\<close>

theorem handleCenterChange_never_manual_after_fix_witness:
  "geoMethod (handleCenterChange elsewhere (handleCenterChange here
     (handleFileSelect_located (Position here) located))) = Auto \<and>
   coordinates (handleCenterChange elsewhere (handleCenterChange here
     (handleFileSelect_located (Position here) located))) = Some elsewhere"
  using handleCenterChange_never_manual_after_fix [of "[here, elsewhere]" here located]
  by (simp add: handleCenterChange_def)

subsection \<open>A selection while media is held\<close>

lemmas file_checks = isImage_def isVideo_def isHeicFile_def startsWith_def endsWith_def
  toLowerCase_def toLowerCase_char_def max_file_size_def

lemma heic_a_checks:
  "isHeicFile heic_a" "isImage heic_a" "\<not> blob_size heic_a > max_file_size"
  by (simp_all add: heic_a_def file_checks)

lemma heic_b_checks:
  "isHeicFile heic_b" "isImage heic_b" "\<not> blob_size heic_b > max_file_size"
  by (simp_all add: heic_b_def file_checks)

lemma png_file_checks:
  "\<not> isHeicFile png_file" "isImage png_file" "\<not> blob_size png_file > max_file_size"
  by (simp_all add: png_file_def file_checks)

lemma heic_a_renamed: "replace_heic_suffix (file_name heic_a) = ''IMG_0001.jpg''"
  by (simp add: heic_a_def replace_heic_suffix_def toLowerCase_def toLowerCase_char_def
      endsWith_def)

lemma media_held_on_select_eq:
  "media_held_on_select =
     \<lparr>step = Select,
      file = Some \<lparr>blob_size = 3000, blob_type = ''image/jpeg'', blob_data = ''jpeg a'',
                   file_name = ''IMG_0001.jpg''\<rparr>,
      mediaUrl = Some ''blob:a'', coordinates = Some here, geoMethod = Auto, geoError = None,
      analysis = None, isAnalyzing = False,
      error = Some ''Failed to convert HEIC image. Please try a different format.'',
      objectURLs = {''blob:a''}\<rparr>"
  by (simp add: media_held_on_select_def handleFileSelect_begin_def heic_a_checks heic_b_checks
      handleClose_def resetState_def revoke_mediaUrl_def initial_def
      handleFileSelect_converted_def convertHeicToJpeg_def new_File_def
      handleFileSelect_located_def heic_a_renamed jpeg_a_def Let_def)

text \<open>
  Claim C5 says that an accepted selection made while the draft holds a media asset
  releases that asset's object URL and resets the coordinates. \<^verbatim>\<open>handleFileSelect\<close> does
  neither: for an accepted file it adds the new object URL to the table and releases
  none, so the URL held before stays live with nothing referring to it, and when the
  position request is rejected the coordinates are those from before the selection.
\<close>

theorem handleFileSelect_keeps_previous_media:
  assumes "isImage f \<or> isVideo f" and "blob_size f \<le> max_file_size" and "\<not> isHeicFile f"
  shows "mediaUrl (handleFileSelect env (Some f) m) = Some (createObjectURL env) \<and>
         objectURLs (handleFileSelect env (Some f) m) = insert (createObjectURL env) (objectURLs m) \<and>
         (getCurrentPosition env = GeoRejected \<longrightarrow>
            coordinates (handleFileSelect env (Some f) m) = coordinates m)"
  using assms
  by (auto simp: handleFileSelect_def handleFileSelect_begin_def handleFileSelect_located_def
      split: GeoResult.split)

text \<open>
  The run \<open>media_held_on_select\<close> ends on the select step, where the file input is
  shown, holding the object URL \<^verbatim>\<open>blob:a\<close>. Selecting a PNG there, with the position
  request rejected, leaves \<^verbatim>\<open>blob:a\<close> live and the old coordinates in place.
\<close>

theorem handleFileSelect_keeps_previous_media_witness:
  "step media_held_on_select = Select \<and>
   mediaUrl media_held_on_select = Some ''blob:a'' \<and>
   mediaUrl (handleFileSelect select_env (Some png_file) media_held_on_select) = Some ''blob:2'' \<and>
   ''blob:a'' \<in> objectURLs (handleFileSelect select_env (Some png_file) media_held_on_select) \<and>
   coordinates (handleFileSelect select_env (Some png_file) media_held_on_select) = Some here"
  using handleFileSelect_keeps_previous_media [of png_file select_env media_held_on_select]
  by (simp add: png_file_checks media_held_on_select_eq select_env_def not_less [symmetric])

subsection \<open>The converted file's name\<close>

text \<open>
  Claim C7 says that the converted file of every file classified as proprietary-format
  is renamed to end in \<^verbatim>\<open>.jpg\<close>. The classification accepts the content type alone, but
  the renaming only replaces a \<^verbatim>\<open>.heic\<close> or \<^verbatim>\<open>.heif\<close> suffix: a name without that
  suffix is kept as it is. (The converted file does get the content type
  \<^verbatim>\<open>image/jpeg\<close> and the converter's bytes.)
\<close>

theorem convertHeicToJpeg_keeps_name_without_suffix:
  assumes "\<not> endsWith (toLowerCase (file_name f)) ''.heic''"
    and "\<not> endsWith (toLowerCase (file_name f)) ''.heif''"
  shows "convertHeicToJpeg (OneBlob b) f =
           Some (Some b, \<lparr>blob_size = blob_size b, blob_type = ''image/jpeg'',
                           blob_data = blob_data b, file_name = file_name f\<rparr>)"
  using assms by (simp add: convertHeicToJpeg_def new_File_def replace_heic_suffix_def)

theorem convertHeicToJpeg_keeps_name_without_suffix_witness:
  "isHeicFile heic_by_type \<and>
   convertHeicToJpeg (OneBlob jpeg_a) heic_by_type =
     Some (Some jpeg_a, \<lparr>blob_size = 3000, blob_type = ''image/jpeg'', blob_data = ''jpeg a'',
                          file_name = ''IMG_0003''\<rparr>) \<and>
   \<not> endsWith ''IMG_0003'' ''.jpg''"
  using convertHeicToJpeg_keeps_name_without_suffix [of heic_by_type jpeg_a]
  by (simp add: heic_by_type_def jpeg_a_def isHeicFile_def toLowerCase_def toLowerCase_char_def
      endsWith_def)

section \<open>Properties of the report store\<close>

subsection \<open>Object identifiers as text\<close>

lemma length_hex: "length (hex n x) = n"
  by (induction n arbitrary: x) simp_all

lemma hex_digit_inj:
  assumes "a < 16" and "b < 16" and "hex_digit a = hex_digit b"
  shows "a = b"
proof -
  have "distinct ''0123456789abcdef''" by simp
  moreover have "a < length ''0123456789abcdef''" and "b < length ''0123456789abcdef''"
    using assms by simp_all
  ultimately show ?thesis
    using assms(3) unfolding hex_digit_def by (simp only: nth_eq_iff_index_eq)
qed

lemma hex_inj: "x < 16 ^ n \<Longrightarrow> y < 16 ^ n \<Longrightarrow> hex n x = hex n y \<Longrightarrow> x = y"
proof (induction n arbitrary: x y)
  case 0
  then show ?case by simp
next
  case (Suc n)
  from Suc.prems(3) have high: "hex n (x div 16) = hex n (y div 16)"
    and low: "hex_digit (x mod 16) = hex_digit (y mod 16)"
    by simp_all
  have "x div 16 < 16 ^ n" and "y div 16 < 16 ^ n"
    using Suc.prems(1,2) by (simp_all add: less_mult_imp_div_less mult.commute)
  then have "x div 16 = y div 16" using high by (intro Suc.IH)
  moreover from low have "x mod 16 = y mod 16" by (intro hex_digit_inj) simp_all
  ultimately show ?case by (metis div_mult_mod_eq)
qed

lemma toString_length: "length (toString i) = 24"
  by (simp add: toString_def length_hex)

lemma toString_nonempty: "toString i \<noteq> []"
  using toString_length [of i] by auto

lemma toString_inj: "toString i = toString j \<Longrightarrow> i = j"
proof -
  assume eq: "toString i = toString j"
  have "unat i < 2 ^ 96" and "unat j < 2 ^ 96"
    using unsigned_less [of i, where 'a = nat] unsigned_less [of j, where 'a = nat]
    by simp_all
  moreover have "(2::nat) ^ 96 = 16 ^ 24" by simp
  ultimately have "unat i < 16 ^ 24" and "unat j < 16 ^ 24" by simp_all
  with eq have "unat i = unat j" unfolding toString_def by (rule_tac hex_inj)
  then show "i = j" by (simp add: word_unat_eq_iff)
qed

subsection \<open>Routing at creation\<close>

lemma assign_routing_cases:
  "(\<exists>ar \<in> set (areas db). isActive ar \<and> geo (polygon ar) (location r) \<and>
      assign_routing geo env db r =
        r\<lparr>routing := Some \<lparr>assignedAreaId = toString (area_id ar), matchedBy = ''geoWithin'',
                             matchedAt = now env\<rparr>\<rparr>) \<or>
   ((\<forall>ar \<in> set (areas db). \<not> (isActive ar \<and> geo (polygon ar) (location r))) \<and>
      assign_routing geo env db r = r)"
proof (cases "findOne_area geo (location r) (areas db)")
  case None
  then have "\<forall>ar \<in> set (areas db). \<not> (isActive ar \<and> geo (polygon ar) (location r))"
    by (auto simp: findOne_area_def find_None_iff)
  with None show ?thesis by (simp add: assign_routing_def)
next
  case (Some ar)
  then have "ar \<in> set (areas db)" and "isActive ar" and "geo (polygon ar) (location r)"
    by (auto simp: findOne_area_def find_Some_iff)
  with Some show ?thesis by (auto simp: assign_routing_def)
qed

lemma POST_success:
  assumes "database_up env" and "body_coordinates body = Some c"
    and "body_analysis body = Some a"
    and "Some (generated_id env) \<notin> set (map oid (reports db))"
  shows "POST geo env (Some body) db =
    (\<lparr>http_status = 201,
      http_body = createdReport (generated_id env)
                    (assign_routing geo env db (new_report env body c a)) c\<rparr>,
     db\<lparr>reports := reports db @
           [(assign_routing geo env db (new_report env body c a))\<lparr>oid := Some (generated_id env)\<rparr>]\<rparr>)"
  using assms by (simp add: POST_def POST_build_def POST_insert_def insertOne_def)

lemma POST_cases:
  "POST geo env request db = (error_response ''Failed to create report'', db) \<or>
   (\<exists>body c a. request = Some body \<and> database_up env \<and> body_coordinates body = Some c \<and>
      body_analysis body = Some a \<and> Some (generated_id env) \<notin> set (map oid (reports db)))"
  by (auto simp: POST_def POST_build_def POST_insert_def insertOne_def
      split: option.splits)


lemma find_here: "findOne_area in_bounding_box (lng here, lat here) [san_francisco] = Some san_francisco"
  by (simp add: findOne_area_def in_bounding_box_def san_francisco_def here_def)

lemma find_null_island:
  "findOne_area in_bounding_box (lng null_island, lat null_island) [san_francisco] = None"
  by (simp add: findOne_area_def in_bounding_box_def san_francisco_def null_island_def)

text \<open>
  Claim C1. Take a request that carries coordinates and an analysis, with the database
  reachable and the generated identifier not in use. Then the handler answers 201 and
  appends exactly one document \<open>p\<close> to the reports. If some active area's polygon meets
  the point \<^verbatim>\<open>[lng, lat]\<close> of the request, \<open>p\<close> carries a routing assignment whose area
  is such an area, with match basis \<^verbatim>\<open>geoWithin\<close> and the request's clock reading as
  the match time. If no active area's polygon meets the point, \<open>p\<close> carries no routing
  assignment; the conditions for success do not mention the areas, so the missing match
  is no error.
\<close>

theorem POST_routes_to_containing_area:
  assumes "database_up env" and "body_coordinates body = Some c"
    and "body_analysis body = Some a"
    and "Some (generated_id env) \<notin> set (map oid (reports db))"
  shows "\<exists>p. http_status (fst (POST geo env (Some body) db)) = 201 \<and>
           snd (POST geo env (Some body) db) = db\<lparr>reports := reports db @ [p]\<rparr> \<and>
           ((\<exists>ar \<in> set (areas db). isActive ar \<and> geo (polygon ar) (lng c, lat c)) \<longrightarrow>
              (\<exists>ar \<in> set (areas db). isActive ar \<and> geo (polygon ar) (lng c, lat c) \<and>
                 routing p = Some \<lparr>assignedAreaId = toString (area_id ar),
                                    matchedBy = ''geoWithin'', matchedAt = now env\<rparr>)) \<and>
           ((\<forall>ar \<in> set (areas db). \<not> (isActive ar \<and> geo (polygon ar) (lng c, lat c))) \<longrightarrow>
              routing p = None)"
proof -
  let ?r = "new_report env body c a"
  let ?p = "(assign_routing geo env db ?r)\<lparr>oid := Some (generated_id env)\<rparr>"
  have loc: "location ?r = (lng c, lat c)" and unrouted: "routing ?r = None"
    by (simp_all add: new_report_def)
  have "http_status (fst (POST geo env (Some body) db)) = 201"
    and "snd (POST geo env (Some body) db) = db\<lparr>reports := reports db @ [?p]\<rparr>"
    using POST_success [OF assms, of geo] by simp_all
  moreover have "(\<exists>ar \<in> set (areas db). isActive ar \<and> geo (polygon ar) (lng c, lat c)) \<longrightarrow>
      (\<exists>ar \<in> set (areas db). isActive ar \<and> geo (polygon ar) (lng c, lat c) \<and>
         routing ?p = Some \<lparr>assignedAreaId = toString (area_id ar),
                             matchedBy = ''geoWithin'', matchedAt = now env\<rparr>)"
    using assign_routing_cases [of db geo ?r env] unfolding loc by auto
  moreover have "(\<forall>ar \<in> set (areas db). \<not> (isActive ar \<and> geo (polygon ar) (lng c, lat c))) \<longrightarrow>
      routing ?p = None"
    using assign_routing_cases [of db geo ?r env] unrouted unfolding loc by auto
  ultimately show ?thesis by blast
qed

theorem POST_routes_to_containing_area_witness:
  "(\<exists>p. http_status (fst (POST in_bounding_box first_env (Some (report_body here)) city_db)) = 201 \<and>
        snd (POST in_bounding_box first_env (Some (report_body here)) city_db) =
          city_db\<lparr>reports := [p]\<rparr> \<and>
        routing p = Some \<lparr>assignedAreaId = toString 1, matchedBy = ''geoWithin'',
                           matchedAt = 1000\<rparr>) \<and>
   (\<exists>p. http_status (fst (POST in_bounding_box first_env (Some (report_body null_island)) city_db)) = 201 \<and>
        snd (POST in_bounding_box first_env (Some (report_body null_island)) city_db) =
          city_db\<lparr>reports := [p]\<rparr> \<and>
        routing p = None)"
proof -
  have inside: "in_bounding_box (polygon san_francisco) (lng here, lat here)"
    and outside: "\<not> in_bounding_box (polygon san_francisco) (lng null_island, lat null_island)"
    by (simp_all add: in_bounding_box_def san_francisco_def here_def null_island_def)
  have active: "isActive san_francisco" and ident: "area_id san_francisco = 1"
    by (simp_all add: san_francisco_def)
  have env: "database_up first_env" "now first_env = 1000"
    "Some (generated_id first_env) \<notin> set (map oid (reports city_db))"
    by (simp_all add: first_env_def server_env_def city_db_def)
  have body: "body_coordinates (report_body c) = Some c"
    "body_analysis (report_body c) = Some sample_analysis" for c
    by (simp_all add: report_body_def)
  have areas: "areas city_db = [san_francisco]" "reports city_db = []"
    by (simp_all add: city_db_def)
  from POST_routes_to_containing_area [OF env(1) body env(3), of in_bounding_box here]
  have first: "\<exists>p. http_status (fst (POST in_bounding_box first_env (Some (report_body here)) city_db)) = 201 \<and>
        snd (POST in_bounding_box first_env (Some (report_body here)) city_db) =
          city_db\<lparr>reports := [p]\<rparr> \<and>
        routing p = Some \<lparr>assignedAreaId = toString 1, matchedBy = ''geoWithin'',
                           matchedAt = 1000\<rparr>"
    by (simp add: areas inside active ident env(2))
  from POST_routes_to_containing_area [OF env(1) body env(3), of in_bounding_box null_island]
  have second: "\<exists>p. http_status (fst (POST in_bounding_box first_env (Some (report_body null_island)) city_db)) = 201 \<and>
        snd (POST in_bounding_box first_env (Some (report_body null_island)) city_db) =
          city_db\<lparr>reports := [p]\<rparr> \<and>
        routing p = None"
    by (simp add: areas outside)
  from first second show ?thesis by (rule conjI)
qed

subsection \<open>What a create answers\<close>

lemma createdReport_eq_transformedReport:
  "location r = (lng c, lat c) \<Longrightarrow>
   createdReport i r c = transformedReport (r\<lparr>oid := Some i\<rparr>)"
  by (simp add: createdReport_def transformedReport_def)

lemma assign_routing_frame:
  "location (assign_routing geo env db r) = location r"
  "status (assign_routing geo env db r) = status r"
  "createdAt (assign_routing geo env db r) = createdAt r"
  by (simp_all add: assign_routing_def split: option.split)

lemma POST_created:
  assumes "POST geo env request db = (resp, db')"
    and "http_status resp = 201 \<or> reports db' \<noteq> reports db"
  shows "\<exists>body c a.
           request = Some body \<and> database_up env \<and> body_coordinates body = Some c \<and>
           body_analysis body = Some a \<and>
           Some (generated_id env) \<notin> set (map oid (reports db)) \<and>
           resp = \<lparr>http_status = 201,
                    http_body = createdReport (generated_id env)
                      (assign_routing geo env db (new_report env body c a)) c\<rparr> \<and>
           db' = db\<lparr>reports := reports db @
                   [(assign_routing geo env db (new_report env body c a))
                      \<lparr>oid := Some (generated_id env)\<rparr>]\<rparr>"
proof -
  from assms have "POST geo env request db \<noteq> (error_response ''Failed to create report'', db)"
    by (auto simp: error_response_def)
  with POST_cases [of geo env request db] obtain body c a where
    ok: "request = Some body" "database_up env" "body_coordinates body = Some c"
      "body_analysis body = Some a" "Some (generated_id env) \<notin> set (map oid (reports db))"
    by blast
  from POST_success [OF ok(2-5), of geo] assms(1) ok show ?thesis by auto
qed

text \<open>
  Claim C9. Whenever \<^verbatim>\<open>POST\<close> creates a report, that is, whenever the reports in the
  store are not the same after the request as before, the answer has status code 201,
  the record has status \<^verbatim>\<open>open\<close> (in the answer and in the store), and its id is the
  text of the identifier generated for this insertion: 24 characters, so not empty, and
  different from the id of every report the store held before.
\<close>

theorem POST_created_report_open_with_fresh_id:
  assumes "POST geo env request db = (resp, db')" and "reports db' \<noteq> reports db"
  shows "http_status resp = 201 \<and>
         field ''status'' (http_body resp) = Some (JString ''open'') \<and>
         field ''id'' (http_body resp) = Some (JString (toString (generated_id env))) \<and>
         toString (generated_id env) \<noteq> [] \<and>
         (\<forall>r \<in> set (reports db). \<forall>i. oid r = Some i \<longrightarrow>
            toString i \<noteq> toString (generated_id env)) \<and>
         (\<exists>p. reports db' = reports db @ [p] \<and> oid p = Some (generated_id env) \<and>
              status p = ''open'')"
proof -
  from POST_created [OF assms(1)] assms(2) obtain body c a where
    fresh: "Some (generated_id env) \<notin> set (map oid (reports db))"
    and resp: "resp = \<lparr>http_status = 201,
                    http_body = createdReport (generated_id env)
                      (assign_routing geo env db (new_report env body c a)) c\<rparr>"
    and db': "db' = db\<lparr>reports := reports db @
                   [(assign_routing geo env db (new_report env body c a))
                      \<lparr>oid := Some (generated_id env)\<rparr>]\<rparr>"
    by blast
  have opened: "status (assign_routing geo env db (new_report env body c a)) = ''open''"
    by (simp add: assign_routing_frame new_report_def)
  have "\<forall>r \<in> set (reports db). \<forall>i. oid r = Some i \<longrightarrow> toString i \<noteq> toString (generated_id env)"
  proof (intro ballI allI impI)
    fix r i
    assume "r \<in> set (reports db)" and "oid r = Some i"
    with fresh have "i \<noteq> generated_id env" by force
    then show "toString i \<noteq> toString (generated_id env)" using toString_inj by blast
  qed
  moreover have "field ''status'' (http_body resp) = Some (JString ''open'')"
    and "field ''id'' (http_body resp) = Some (JString (toString (generated_id env)))"
    by (simp_all add: resp createdReport_def opened)
  ultimately show ?thesis
    by (simp add: resp db' opened toString_nonempty)
qed

theorem POST_created_report_open_with_fresh_id_witness:
  "reports (snd (POST in_bounding_box first_env (Some (report_body here)) city_db)) \<noteq>
     reports city_db \<and>
   http_status (fst (POST in_bounding_box first_env (Some (report_body here)) city_db)) = 201 \<and>
   field ''status'' (http_body (fst (POST in_bounding_box first_env (Some (report_body here)) city_db))) =
     Some (JString ''open'') \<and>
   field ''id'' (http_body (fst (POST in_bounding_box first_env (Some (report_body here)) city_db))) =
     Some (JString (toString 7)) \<and>
   toString 7 \<noteq> []"
proof -
  have created: "reports (snd (POST in_bounding_box first_env (Some (report_body here)) city_db)) \<noteq>
     reports city_db"
    by (simp add: POST_def POST_build_def POST_insert_def insertOne_def first_env_def
        server_env_def report_body_def city_db_def)
  from POST_created_report_open_with_fresh_id [OF prod.collapse [symmetric] created]
  show ?thesis using created by (simp add: first_env_def server_env_def)
qed

text \<open>The create of a report at \<open>here\<close>, inside the sample area, worked out.\<close>

lemma POST_here:
  "POST in_bounding_box first_env (Some (report_body here)) city_db =
     (\<lparr>http_status = 201,
       http_body = createdReport 7
         ((new_report first_env (report_body here) here sample_analysis)
            \<lparr>routing := Some \<lparr>assignedAreaId = toString 1, matchedBy = ''geoWithin'',
                                matchedAt = 1000\<rparr>\<rparr>) here\<rparr>,
      city_db\<lparr>reports :=
        [(new_report first_env (report_body here) here sample_analysis)
           \<lparr>routing := Some \<lparr>assignedAreaId = toString 1, matchedBy = ''geoWithin'',
                               matchedAt = 1000\<rparr>,
             oid := Some 7\<rparr>]\<rparr>)"
proof -
  have "assign_routing in_bounding_box first_env city_db
          (new_report first_env (report_body here) here sample_analysis) =
        (new_report first_env (report_body here) here sample_analysis)
          \<lparr>routing := Some \<lparr>assignedAreaId = toString 1, matchedBy = ''geoWithin'',
                              matchedAt = 1000\<rparr>\<rparr>"
    using find_here
    by (simp add: assign_routing_def new_report_def city_db_def first_env_def server_env_def
        san_francisco_def)
  moreover have "database_up first_env" "generated_id first_env = 7"
    "body_coordinates (report_body here) = Some here"
    "body_analysis (report_body here) = Some sample_analysis"
    "Some (generated_id first_env) \<notin> set (map oid (reports city_db))"
    "reports city_db = []"
    by (simp_all add: first_env_def server_env_def report_body_def city_db_def)
  ultimately show ?thesis
    using POST_success [of first_env "report_body here" here sample_analysis city_db in_bounding_box]
    by simp
qed




subsection \<open>The listing\<close>

lemma find_sorted_snoc_latest:
  assumes "\<forall>r' \<in> set pre. createdAt r' < createdAt r"
  shows "find_sorted (pre @ [r]) = r # find_sorted pre"
  using assms unfolding find_sorted_def by (induction pre) auto

lemma find_sorted_descending:
  "sorted_wrt (\<lambda>a b. createdAt b \<le> createdAt a) (find_sorted rs)"
proof -
  have "sorted (map (\<lambda>r. - createdAt r) (find_sorted rs))"
    unfolding find_sorted_def by (rule sorted_sort_key)
  then show ?thesis by (simp add: sorted_map)
qed

text \<open>
  Claim C3, amended. With the database reachable, \<^verbatim>\<open>GET\<close> answers 200 with one element
  for every stored report, no report left out or repeated, in descending order of
  \<^verbatim>\<open>createdAt\<close>. If the store \<open>db\<close> is the outcome of a create answered with 201 whose
  clock reading is later than the \<^verbatim>\<open>createdAt\<close> of every report stored before it, the
  listing's first element is that create's answer, followed by the listing of the
  earlier reports.
\<close>

theorem GET_lists_all_latest_first:
  assumes "database_up env"
  shows "http_status (GET env db) = 200 \<and>
         elements (http_body (GET env db)) = map transformedReport (find_sorted (reports db)) \<and>
         mset (find_sorted (reports db)) = mset (reports db) \<and>
         sorted_wrt (\<lambda>a b. createdAt b \<le> createdAt a) (find_sorted (reports db)) \<and>
         (POST geo env0 request db0 = (resp, db) \<and> http_status resp = 201 \<and>
            (\<forall>r \<in> set (reports db0). createdAt r < now env0) \<longrightarrow>
          elements (http_body (GET env db)) =
            http_body resp # map transformedReport (find_sorted (reports db0)))"
proof -
  have listing: "http_status (GET env db) = 200"
    "elements (http_body (GET env db)) = map transformedReport (find_sorted (reports db))"
    using assms by (simp_all add: GET_def)
  have all: "mset (find_sorted (reports db)) = mset (reports db)"
    by (simp add: find_sorted_def)
  have "elements (http_body (GET env db)) =
          http_body resp # map transformedReport (find_sorted (reports db0))"
    if post: "POST geo env0 request db0 = (resp, db)" and ok: "http_status resp = 201"
      and later: "\<forall>r \<in> set (reports db0). createdAt r < now env0"
  proof -
    from POST_created [OF post] ok obtain body c a where
      resp: "resp = \<lparr>http_status = 201,
                      http_body = createdReport (generated_id env0)
                        (assign_routing geo env0 db0 (new_report env0 body c a)) c\<rparr>"
      and db: "db = db0\<lparr>reports := reports db0 @
                     [(assign_routing geo env0 db0 (new_report env0 body c a))
                        \<lparr>oid := Some (generated_id env0)\<rparr>]\<rparr>"
      by blast
    let ?r = "assign_routing geo env0 db0 (new_report env0 body c a)"
    have loc: "location ?r = (lng c, lat c)" and at: "createdAt ?r = now env0"
      by (simp_all add: assign_routing_frame new_report_def)
    from later at have "\<forall>r' \<in> set (reports db0).
        createdAt r' < createdAt (?r\<lparr>oid := Some (generated_id env0)\<rparr>)"
      by simp
    then have "find_sorted (reports db) =
        ?r\<lparr>oid := Some (generated_id env0)\<rparr> # find_sorted (reports db0)"
      unfolding db by (simp add: find_sorted_snoc_latest)
    moreover have "http_body resp = transformedReport (?r\<lparr>oid := Some (generated_id env0)\<rparr>)"
      using createdReport_eq_transformedReport [OF loc] by (simp add: resp)
    ultimately show ?thesis by (simp add: listing)
  qed
  with listing all find_sorted_descending [of "reports db"] show ?thesis by blast
qed

text \<open>The store after the create at \<open>here\<close>, and a second create at a later clock reading.\<close>

lemma after_first_eq:
  "after_first = city_db\<lparr>reports :=
        [(new_report first_env (report_body here) here sample_analysis)
           \<lparr>routing := Some \<lparr>assignedAreaId = toString 1, matchedBy = ''geoWithin'',
                               matchedAt = 1000\<rparr>,
             oid := Some 7\<rparr>]\<rparr>"
  by (simp add: after_first_def POST_here)

lemma POST_null_island_after_first:
  "POST in_bounding_box second_env (Some (report_body null_island)) after_first =
     (\<lparr>http_status = 201,
       http_body = createdReport 8
         (new_report second_env (report_body null_island) null_island sample_analysis)
         null_island\<rparr>,
      city_db\<lparr>reports :=
        [(new_report first_env (report_body here) here sample_analysis)
           \<lparr>routing := Some \<lparr>assignedAreaId = toString 1, matchedBy = ''geoWithin'',
                               matchedAt = 1000\<rparr>,
             oid := Some 7\<rparr>,
         (new_report second_env (report_body null_island) null_island sample_analysis)
           \<lparr>oid := Some 8\<rparr>]\<rparr>)"
proof -
  note db = after_first_eq
  have "assign_routing in_bounding_box second_env after_first
          (new_report second_env (report_body null_island) null_island sample_analysis) =
        new_report second_env (report_body null_island) null_island sample_analysis"
    using find_null_island by (simp add: assign_routing_def new_report_def db city_db_def)
  moreover have "database_up second_env" "generated_id second_env = 8"
    "body_coordinates (report_body null_island) = Some null_island"
    "body_analysis (report_body null_island) = Some sample_analysis"
    "Some (generated_id second_env) \<notin> set (map oid (reports after_first))"
    by (simp_all add: second_env_def server_env_def report_body_def db)
  ultimately show ?thesis
    using POST_success [of second_env "report_body null_island" null_island sample_analysis
        after_first in_bounding_box]
    by (simp add: db)
qed

theorem GET_lists_all_latest_first_witness:
  "database_up later_env \<and>
   http_status (fst (POST in_bounding_box second_env (Some (report_body null_island)) after_first)) = 201 \<and>
   map createdAt (reports after_first) = [1000] \<and> now second_env = 2000 \<and>
   hd (elements (http_body (GET later_env
        (snd (POST in_bounding_box second_env (Some (report_body null_island)) after_first))))) =
     http_body (fst (POST in_bounding_box second_env (Some (report_body null_island)) after_first))"
proof -
  have up: "database_up later_env" and clock: "now second_env = 2000"
    by (simp_all add: later_env_def second_env_def server_env_def)
  have ok: "http_status (fst (POST in_bounding_box second_env (Some (report_body null_island)) after_first)) = 201"
    by (simp add: POST_null_island_after_first)
  have before: "map createdAt (reports after_first) = [1000]"
  proof -
    have "now first_env = 1000" by (simp add: first_env_def server_env_def)
    then show ?thesis by (simp add: after_first_eq new_report_def)
  qed
  then have earlier: "\<forall>r \<in> set (reports after_first). createdAt r < now second_env"
    unfolding clock by (cases "reports after_first") auto
  from GET_lists_all_latest_first [OF up, of _ in_bounding_box second_env
      "Some (report_body null_island)" after_first] ok earlier
  have "elements (http_body (GET later_env
        (snd (POST in_bounding_box second_env (Some (report_body null_island)) after_first)))) =
     http_body (fst (POST in_bounding_box second_env (Some (report_body null_island)) after_first)) #
       map transformedReport (find_sorted (reports after_first))"
    by (metis prod.collapse)
  with up ok before clock show ?thesis by simp
qed


text \<open>The two overlapping creates, worked out.\<close>

lemma POST_build_here:
  "POST_build in_bounding_box first_env (Some (report_body here)) city_db =
     Some ((new_report first_env (report_body here) here sample_analysis)
            \<lparr>routing := Some \<lparr>assignedAreaId = toString 1, matchedBy = ''geoWithin'',
                                matchedAt = 1000\<rparr>\<rparr>, here)"
proof -
  have "assign_routing in_bounding_box first_env city_db
          (new_report first_env (report_body here) here sample_analysis) =
        (new_report first_env (report_body here) here sample_analysis)
          \<lparr>routing := Some \<lparr>assignedAreaId = toString 1, matchedBy = ''geoWithin'',
                              matchedAt = 1000\<rparr>\<rparr>"
    using find_here
    by (simp add: assign_routing_def new_report_def city_db_def first_env_def server_env_def
        san_francisco_def)
  moreover have "database_up first_env"
    "body_coordinates (report_body here) = Some here"
    "body_analysis (report_body here) = Some sample_analysis"
    by (simp_all add: first_env_def server_env_def report_body_def)
  ultimately show ?thesis by (simp add: POST_build_def)
qed

lemma POST_build_null_island:
  "POST_build in_bounding_box second_env (Some (report_body null_island)) city_db =
     Some (new_report second_env (report_body null_island) null_island sample_analysis,
           null_island)"
proof -
  have "assign_routing in_bounding_box second_env city_db
          (new_report second_env (report_body null_island) null_island sample_analysis) =
        new_report second_env (report_body null_island) null_island sample_analysis"
    using find_null_island by (simp add: assign_routing_def new_report_def city_db_def)
  moreover have "database_up second_env"
    "body_coordinates (report_body null_island) = Some null_island"
    "body_analysis (report_body null_island) = Some sample_analysis"
    by (simp_all add: second_env_def server_env_def report_body_def)
  ultimately show ?thesis by (simp add: POST_build_def)
qed

lemma interleaved_creates_eq:
  "interleaved_creates =
     (\<lparr>http_status = 201,
       http_body = createdReport 7
         ((new_report first_env (report_body here) here sample_analysis)
            \<lparr>routing := Some \<lparr>assignedAreaId = toString 1, matchedBy = ''geoWithin'',
                                matchedAt = 1000\<rparr>\<rparr>) here\<rparr>,
      \<lparr>http_status = 201,
       http_body = createdReport 8
         (new_report second_env (report_body null_island) null_island sample_analysis)
         null_island\<rparr>,
      city_db\<lparr>reports :=
        [(new_report second_env (report_body null_island) null_island sample_analysis)
           \<lparr>oid := Some 8\<rparr>,
         (new_report first_env (report_body here) here sample_analysis)
           \<lparr>routing := Some \<lparr>assignedAreaId = toString 1, matchedBy = ''geoWithin'',
                               matchedAt = 1000\<rparr>,
             oid := Some 7\<rparr>]\<rparr>)"
proof -
  have ids: "generated_id first_env = 7" "generated_id second_env = 8"
    by (simp_all add: first_env_def second_env_def server_env_def)
  have empty: "reports city_db = []" by (simp add: city_db_def)
  show ?thesis
    by (simp add: interleaved_creates_def POST_build_here POST_build_null_island
        POST_insert_def insertOne_def ids empty)
qed

text \<open>
  Claim C3 says that the report created immediately before a listing is the listing's
  first element, for any interleaving of creates. In the run \<open>interleaved_creates\<close> the
  create that is answered with id \<open>toString 7\<close> inserts last, yet the listing taken right
  after it starts with the other report: the order follows the clock readings taken
  when each request started, not the order of insertion.
\<close>

theorem GET_latest_created_first_counterexample:
  "http_status (fst interleaved_creates) = 201 \<and>
   field ''id'' (http_body (fst interleaved_creates)) = Some (JString (toString 7)) \<and>
   map oid (reports (snd (snd interleaved_creates))) = [Some 8, Some 7] \<and>
   map (field ''id'') (elements (http_body (GET later_env (snd (snd interleaved_creates))))) =
     [Some (JString (toString 8)), Some (JString (toString 7))] \<and>
   toString (8 :: ObjectId) \<noteq> toString 7"
proof -
  have clocks: "now first_env = 1000" "now second_env = 2000" "database_up later_env"
    by (simp_all add: first_env_def second_env_def later_env_def server_env_def)
  have "toString (8 :: ObjectId) \<noteq> toString 7"
    using toString_inj [of "8 :: ObjectId" 7] by auto
  moreover have "map (field ''id'')
      (elements (http_body (GET later_env (snd (snd interleaved_creates))))) =
     [Some (JString (toString 8)), Some (JString (toString 7))]"
    by (simp add: interleaved_creates_eq GET_def find_sorted_def transformedReport_def
        new_report_def clocks)
  moreover have "field ''id'' (http_body (fst interleaved_creates)) = Some (JString (toString 7))"
    by (simp add: interleaved_creates_eq createdReport_def)
  ultimately show ?thesis by (simp add: interleaved_creates_eq)
qed

end
